theory Spec2Isabelle
  imports Complex_Main "HOL-Library.Char_ord" "HOL-Library.List_Lexorder"
begin

section \<open>The order controller of the marketplace backend\<close>

text \<open>
  A shallow embedding of \<^verbatim>\<open>controllers/orderController.js\<close> (createOrder, getMyOrders,
  getOrder, updateOrderStatus, assignAgent), of the role middleware \<^verbatim>\<open>requireRole\<close>
  and of the part of the database schema the controller relies on.

  Conventions of the embedding:
  \<^item> UUID keys are natural numbers: the code only compares them for equality.
  \<^item> Role and status are strings, as in the code, which compares them with literals.
  \<^item> Numbers are rationals. The arithmetic of the handlers is exact (the rounding of
    JavaScript doubles is not modelled); a DECIMAL(10,2) column keeps what it is given
    rounded to two decimals, and the handlers answer with the row read back.
  \<^item> A thrown \<^verbatim>\<open>AppError(message, statusCode, code)\<close> is the value \<open>AppError\<close>;
    dereferencing \<^verbatim>\<open>null\<close> or \<^verbatim>\<open>undefined\<close> is \<open>TypeError\<close>.
  \<^item> Every handler takes the store and returns its result together with the store it
    leaves behind, so a write that precedes a failure stays visible.
  \<^item> A failed single-row read is treated by every handler exactly like an absent row
    (\<^verbatim>\<open>if (error || !row)\<close>), so reads are lookups. A failed write or list query is a
    flag of the environment record.
\<close>

subsection \<open>Data model (schema.sql)\<close>

type_synonym uuid = nat

record user =
  user_id :: uuid
  user_role :: string
  user_district_id :: "uuid option"
  user_is_active :: bool

record product =
  farmer_id :: uuid
  price :: rat
  product_district_id :: uuid
  available_quantity :: rat
  product_is_active :: bool

record order =
  order_id :: uuid
  product_id :: uuid
  customer_id :: uuid
  agent_id :: "uuid option"
  quantity :: rat
  unit_price :: rat
  total_price :: rat
  commission :: rat
  commission_rate :: rat
  status :: string
  delivery_address :: "string option"
  customer_notes :: "string option"
  agent_notes :: "string option"
  created_at :: nat
  updated_at :: nat

text \<open>
  The store: users and products by primary key, the rows of the orders table, and the
  lines written with \<^verbatim>\<open>console.error\<close>.
\<close>

record store =
  users :: "uuid \<rightharpoonup> user"
  products :: "uuid \<rightharpoonup> product"
  orders :: "order list"
  console :: "string list"

text \<open>
  What a call takes from its environment: the clock (\<^verbatim>\<open>NOW()\<close> of the defaults and of
  the \<^verbatim>\<open>updated_at\<close> trigger), the key \<^verbatim>\<open>uuid_generate_v4()\<close> gives a new order, and
  whether the store refuses a write or a list query.
\<close>

record env =
  now :: nat
  new_id :: uuid
  insert_fails :: bool
  product_update_fails :: bool
  order_update_fails :: bool
  list_fails :: bool

datatype error = AppError string nat string | TypeError

text \<open>
  The errors the handlers throw, under the names of the specification's error kinds.
\<close>

abbreviation PermissionDenied_create :: error where
  "PermissionDenied_create \<equiv> AppError ''Only customers can create orders'' 403 ''INSUFFICIENT_PERMISSIONS''"

abbreviation ProductNotFound :: error where
  "ProductNotFound \<equiv> AppError ''Product not found or inactive'' 404 ''PRODUCT_NOT_FOUND''"

abbreviation InsufficientStock :: error where
  "InsufficientStock \<equiv> AppError ''Insufficient product quantity available'' 400 ''INSUFFICIENT_QUANTITY''"

abbreviation AgentNotFound :: error where
  "AgentNotFound \<equiv> AppError ''Agent not found or inactive'' 404 ''AGENT_NOT_FOUND''"

abbreviation DistrictMismatch :: error where
  "DistrictMismatch \<equiv> AppError ''Agent must be from the same district as the product'' 400 ''AGENT_DISTRICT_MISMATCH''"

abbreviation OrderCreateFailed :: error where
  "OrderCreateFailed \<equiv> AppError ''Failed to create order'' 500 ''ORDER_CREATE_FAILED''"

abbreviation InvalidRole :: error where
  "InvalidRole \<equiv> AppError ''Invalid user role'' 403 ''INVALID_ROLE''"


abbreviation OrderNotFound :: error where
  "OrderNotFound \<equiv> AppError ''Order not found'' 404 ''ORDER_NOT_FOUND''"

abbreviation AccessDenied :: error where
  "AccessDenied \<equiv> AppError ''Access denied'' 403 ''ACCESS_DENIED''"

abbreviation PermissionDenied_update :: error where
  "PermissionDenied_update \<equiv> AppError ''Insufficient permissions to update this order'' 403 ''INSUFFICIENT_PERMISSIONS''"

abbreviation UpdateFailed :: error where
  "UpdateFailed \<equiv> AppError ''Failed to update order'' 500 ''UPDATE_FAILED''"

abbreviation AuthRequired :: error where
  "AuthRequired \<equiv> AppError ''Authentication required'' 401 ''AUTH_REQUIRED''"

abbreviation PermissionDenied_route :: error where
  "PermissionDenied_route \<equiv> AppError ''Insufficient permissions'' 403 ''INSUFFICIENT_PERMISSIONS''"

abbreviation ValidationError :: error where
  "ValidationError \<equiv> AppError ''Validation failed'' 400 ''VALIDATION_ERROR''"

abbreviation PermissionDenied_assign :: error where
  "PermissionDenied_assign \<equiv> AppError ''Only customers and admins can assign agents'' 403 ''INSUFFICIENT_PERMISSIONS''"

abbreviation AccessDenied_assign :: error where
  "AccessDenied_assign \<equiv> AppError ''You can only assign agents to your own orders'' 403 ''ACCESS_DENIED''"

abbreviation AssignFailed :: error where
  "AssignFailed \<equiv> AppError ''Failed to assign agent'' 500 ''ASSIGN_FAILED''"

abbreviation InvalidTransition :: "string \<Rightarrow> string \<Rightarrow> error" where
  "InvalidTransition currentStatus target \<equiv>
     AppError (''Cannot change status from '' @ currentStatus @ '' to '' @ target) 400
       ''INVALID_STATUS_TRANSITION''"

subsection \<open>The DECIMAL(10,2) columns\<close>

text \<open>
  What a DECIMAL(10,2) column keeps of a number: the number rounded to two decimals, a
  tie going away from zero. A number whose rounded value has more than eight digits
  before the point is refused.
\<close>

definition round2 :: "rat \<Rightarrow> rat" where
  "round2 x =
     (if 0 \<le> x then of_int \<lfloor>x * 100 + 1 / 2\<rfloor> / 100
      else - (of_int \<lfloor>- x * 100 + 1 / 2\<rfloor> / 100))"

definition fits_10_2 :: "rat \<Rightarrow> bool" where
  "fits_10_2 x = (\<bar>round2 x\<bar> < 100000000)"

subsection \<open>Queries of the store\<close>

text \<open>\<^verbatim>\<open>.single()\<close>: the row when the query has exactly one, an error otherwise.\<close>

fun single :: "'a list \<Rightarrow> 'a option" where
  "single [x] = Some x"
| "single _ = None"

text \<open>\<^verbatim>\<open>from('orders').select(...).eq('id', id).single()\<close>\<close>

definition select_order :: "store \<Rightarrow> uuid \<Rightarrow> order option" where
  "select_order s i = single (filter (\<lambda>r. order_id r = i) (orders s))"

text \<open>\<^verbatim>\<open>from('products').select(...).eq('id', product_id).eq('is_active', true).single()\<close>\<close>

definition select_active_product :: "store \<Rightarrow> uuid \<Rightarrow> product option" where
  "select_active_product s i =
     (case products s i of
        None \<Rightarrow> None
      | Some p \<Rightarrow> if product_is_active p then Some p else None)"

text \<open>
  \<^verbatim>\<open>from('users').select('*').eq('id', agent_id).eq('role', 'agent').eq('is_active', true).single()\<close>;
  an absent \<^verbatim>\<open>agent_id\<close> matches no row.
\<close>

definition select_active_agent :: "store \<Rightarrow> uuid option \<Rightarrow> user option" where
  "select_active_agent s a =
     (case a of
        None \<Rightarrow> None
      | Some i \<Rightarrow>
          (case users s i of
             None \<Rightarrow> None
           | Some u \<Rightarrow>
               if user_role u = ''agent'' \<and> user_is_active u then Some u else None))"

text \<open>
  \<^verbatim>\<open>from('orders').update(patch).eq('id', id)\<close>: the patch is applied to every row with
  that key, and the trigger \<^verbatim>\<open>update_orders_updated_at\<close> stamps the row.
\<close>

definition update_order :: "env \<Rightarrow> uuid \<Rightarrow> (order \<Rightarrow> order) \<Rightarrow> store \<Rightarrow> store" where
  "update_order e i patch s =
     s\<lparr>orders := map (\<lambda>r. if order_id r = i then (patch r)\<lparr>updated_at := now e\<rparr> else r)
                      (orders s)\<rparr>"

text \<open>\<^verbatim>\<open>from('products').update(patch).eq('id', id)\<close>\<close>

definition update_product :: "uuid \<Rightarrow> (product \<Rightarrow> product) \<Rightarrow> store \<Rightarrow> store" where
  "update_product i patch s =
     (case products s i of
        None \<Rightarrow> s
      | Some p \<Rightarrow> s\<lparr>products := (products s)(i \<mapsto> patch p)\<rparr>)"

subsection \<open>createOrder\<close>

record create_body =
  body_product_id :: uuid
  body_quantity :: rat
  body_agent_id :: "uuid option"
  body_delivery_address :: "string option"
  body_customer_notes :: "string option"

text \<open>
  \<^verbatim>\<open>orderData\<close> as the handler computes it, with the defaults of the schema (key,
  \<^verbatim>\<open>agent_notes\<close> null, both timestamps \<^verbatim>\<open>NOW()\<close>).
\<close>

definition orderData :: "env \<Rightarrow> user \<Rightarrow> create_body \<Rightarrow> product \<Rightarrow> bool \<Rightarrow> order" where
  "orderData e usr body prd agentData =
     (let unit_price' = price prd;
          total_price' = unit_price' * body_quantity body;
          commission_rate' = 5;
          commission' = (if agentData then (total_price' * commission_rate') / 100 else 0)
      in \<lparr>order_id = new_id e,
          product_id = body_product_id body,
          customer_id = user_id usr,
          agent_id = body_agent_id body,
          quantity = body_quantity body,
          unit_price = unit_price',
          total_price = total_price',
          commission = commission',
          commission_rate = commission_rate',
          status = ''booked'',
          delivery_address = body_delivery_address body,
          customer_notes = body_customer_notes body,
          agent_notes = None,
          created_at = now e,
          updated_at = now e\<rparr>)"

text \<open>
  The insert into the orders table. The table refuses a row whose quantity, unit price,
  total price or commission does not fit its column, and one whose stored quantity is not
  positive (\<^verbatim>\<open>CHECK (quantity > 0)\<close>); it keeps the four numbers as their columns
  round them (the rate 5 is kept as it is), and that stored row is what
  \<^verbatim>\<open>.select().single()\<close> answers.
\<close>

definition orders_accepts :: "order \<Rightarrow> bool" where
  "orders_accepts r =
     (fits_10_2 (quantity r) \<and> fits_10_2 (unit_price r) \<and> fits_10_2 (total_price r)
      \<and> fits_10_2 (commission r) \<and> 0 < round2 (quantity r))"

definition stored_order :: "order \<Rightarrow> order" where
  "stored_order r =
     r\<lparr>quantity := round2 (quantity r),
       unit_price := round2 (unit_price r),
       total_price := round2 (total_price r),
       commission := round2 (commission r)\<rparr>"

text \<open>
  The two writes of createOrder, after validation: the insert (refused by the store, by
  the primary key when the new key is taken, or by the table as above), then the update
  of the product's quantity from the value read before, into a DECIMAL(10,2) column too,
  whose failure is written to the console only.
\<close>

definition create_writes :: "env \<Rightarrow> user \<Rightarrow> create_body \<Rightarrow> product \<Rightarrow> bool \<Rightarrow> store
    \<Rightarrow> (error + order) \<times> store" where
  "create_writes e usr body prd agentData s =
     (if insert_fails e \<or> new_id e \<in> order_id ` set (orders s)
           \<or> \<not> orders_accepts (orderData e usr body prd agentData)
      then (Inl OrderCreateFailed, s)
      else
        let row = stored_order (orderData e usr body prd agentData);
            s1 = s\<lparr>orders := orders s @ [row]\<rparr>;
            s2 = (if product_update_fails e
                       \<or> \<not> fits_10_2 (available_quantity prd - body_quantity body)
                  then s1\<lparr>console := console s1 @ [''Failed to update product quantity:'']\<rparr>
                  else update_product (body_product_id body)
                         (\<lambda>p. p\<lparr>available_quantity :=
                                  round2 (available_quantity prd - body_quantity body)\<rparr>) s1)
        in (Inr row, s2))"

definition createOrder :: "env \<Rightarrow> user \<Rightarrow> create_body \<Rightarrow> store \<Rightarrow> (error + order) \<times> store" where
  "createOrder e usr body s =
     (if user_role usr \<noteq> ''customer'' \<and> user_role usr \<noteq> ''admin''
      then (Inl PermissionDenied_create, s)
      else
        case select_active_product s (body_product_id body) of
          None \<Rightarrow> (Inl ProductNotFound, s)
        | Some prd \<Rightarrow>
            if available_quantity prd < body_quantity body
            then (Inl InsufficientStock, s)
            else
              (case body_agent_id body of
                 None \<Rightarrow> create_writes e usr body prd False s
               | Some a \<Rightarrow>
                   (case select_active_agent s (Some a) of
                      None \<Rightarrow> (Inl AgentNotFound, s)
                    | Some agent \<Rightarrow>
                        if user_district_id agent \<noteq> Some (product_district_id prd)
                        then (Inl DistrictMismatch, s)
                        else create_writes e usr body prd True s)))"

subsection \<open>getMyOrders\<close>

text \<open>
  The query string, after \<^verbatim>\<open>parseInt\<close> for page and limit; an absent parameter takes
  the default of the destructuring (page 1, limit 20, sort by \<^verbatim>\<open>created_at\<close>,
  descending).
\<close>

record list_query =
  q_status :: "string option"
  q_page :: "int option"
  q_limit :: "int option"
  q_sort_by :: "string option"
  q_sort_order :: "string option"

text \<open>JavaScript truthiness of an optional string: present and not empty.\<close>

definition truthy :: "string option \<Rightarrow> bool" where
  "truthy x = (case x of None \<Rightarrow> False | Some v \<Rightarrow> v \<noteq> [])"

text \<open>
  The role switch. \<^verbatim>\<open>eq(column, value)\<close> on a column of the orders table keeps the
  rows whose column has the value. For the farmer the column is
  \<^verbatim>\<open>product.farmer_id\<close>, a column of the embedded product, and the select embeds the
  product without \<^verbatim>\<open>!inner\<close>: such a filter decides which product is embedded in a
  row (none, for a product of another farmer) and leaves every order in the list. The
  embedded rows are not part of the modelled answer, so the farmer's list is the table.
\<close>

definition role_filter :: "user \<Rightarrow> store \<Rightarrow> error + order list" where
  "role_filter usr s =
     (if user_role usr = ''customer''
        then Inr (filter (\<lambda>r. customer_id r = user_id usr) (orders s))
      else if user_role usr = ''agent''
        then Inr (filter (\<lambda>r. agent_id r = Some (user_id usr)) (orders s))
      else if user_role usr = ''farmer''
        then Inr (orders s)
      else if user_role usr = ''admin''
        then Inr (orders s)
      else Inl InvalidRole)"






subsection \<open>getOrder\<close>

text \<open>
  \<^verbatim>\<open>hasAccess\<close>, evaluated left to right: the joined product is read only when the
  three tests before it are false, and reading \<^verbatim>\<open>farmer_id\<close> of a missing product
  throws.
\<close>

definition hasAccess :: "user \<Rightarrow> order \<Rightarrow> store \<Rightarrow> error + bool" where
  "hasAccess usr ord s =
     (if user_role usr = ''admin'' \<or> customer_id ord = user_id usr
           \<or> agent_id ord = Some (user_id usr)
      then Inr True
      else (case products s (product_id ord) of
              None \<Rightarrow> Inl TypeError
            | Some p \<Rightarrow> Inr (farmer_id p = user_id usr)))"

definition getOrder :: "user \<Rightarrow> uuid \<Rightarrow> store \<Rightarrow> (error + order) \<times> store" where
  "getOrder usr i s =
     (case select_order s i of
        None \<Rightarrow> (Inl OrderNotFound, s)
      | Some ord \<Rightarrow>
          (case hasAccess usr ord s of
             Inl err \<Rightarrow> (Inl err, s)
           | Inr ok \<Rightarrow>
               if \<not> ok then (Inl AccessDenied, s)
               else (Inr ord, s)))"

subsection \<open>updateOrderStatus\<close>

record status_body =
  body_status :: "string option"
  body_agent_notes :: "string option"

text \<open>
  \<^verbatim>\<open>canUpdate\<close>, evaluated left to right: the joined product is read only for a
  farmer who passed neither of the tests before.
\<close>

definition canUpdate :: "user \<Rightarrow> order \<Rightarrow> store \<Rightarrow> error + bool" where
  "canUpdate usr existingOrder s =
     (if user_role usr = ''admin'' then Inr True
      else if user_role usr = ''agent'' \<and> agent_id existingOrder = Some (user_id usr)
        then Inr True
      else if user_role usr = ''farmer''
        then (case products s (product_id existingOrder) of
                None \<Rightarrow> Inl TypeError
              | Some p \<Rightarrow> Inr (farmer_id p = user_id usr))
      else Inr False)"

text \<open>The table of the source; a key it does not have reads as \<^verbatim>\<open>undefined\<close>.\<close>

definition validTransitions :: "string \<Rightarrow> string list option" where
  "validTransitions st =
     (if st = ''booked'' then Some [''confirmed'', ''cancelled'']
      else if st = ''confirmed'' then Some [''picked'', ''cancelled'']
      else if st = ''picked'' then Some [''delivered'', ''cancelled'']
      else if st = ''delivered'' then Some []
      else if st = ''cancelled'' then Some []
      else None)"

text \<open>
  The transition check: \<^verbatim>\<open>validTransitions[currentStatus].includes(status)\<close>. It
  returns the accepted target; an absent target is in no list and prints as
  \<^verbatim>\<open>undefined\<close> in the message.
\<close>

definition check_transition :: "string \<Rightarrow> string option \<Rightarrow> error + string" where
  "check_transition currentStatus target =
     (case validTransitions currentStatus of
        None \<Rightarrow> Inl TypeError
      | Some allowed \<Rightarrow>
          (case target of
             None \<Rightarrow> Inl (InvalidTransition currentStatus ''undefined'')
           | Some t \<Rightarrow>
               if t \<in> set allowed then Inr t
               else Inl (InvalidTransition currentStatus t)))"

text \<open>\<^verbatim>\<open>updateData\<close> as a patch of the row.\<close>

definition updateData :: "string \<Rightarrow> string option \<Rightarrow> order \<Rightarrow> order" where
  "updateData t notes r =
     (if truthy notes then r\<lparr>status := t, agent_notes := notes\<rparr> else r\<lparr>status := t\<rparr>)"

definition updateOrderStatus :: "env \<Rightarrow> user \<Rightarrow> uuid \<Rightarrow> status_body \<Rightarrow> store
    \<Rightarrow> (error + order) \<times> store" where
  "updateOrderStatus e usr i body s =
     (case select_order s i of
        None \<Rightarrow> (Inl OrderNotFound, s)
      | Some existingOrder \<Rightarrow>
          (case canUpdate usr existingOrder s of
             Inl err \<Rightarrow> (Inl err, s)
           | Inr ok \<Rightarrow>
               if \<not> ok
               then (Inl PermissionDenied_update, s)
               else
                 (case check_transition (status existingOrder) (body_status body) of
                    Inl err \<Rightarrow> (Inl err, s)
                  | Inr t \<Rightarrow>
                      if order_update_fails e
                      then (Inl UpdateFailed, s)
                      else
                        let s' = update_order e i (updateData t (body_agent_notes body)) s
                        in (case select_order s' i of
                              None \<Rightarrow> (Inl UpdateFailed, s')
                            | Some ord \<Rightarrow> (Inr ord, s')))))"

text \<open>
  The route \<^verbatim>\<open>PUT /:id/status\<close>: \<^verbatim>\<open>requireRole(['agent', 'admin', 'farmer'])\<close>, then
  \<^verbatim>\<open>validate(schemas.orderUpdate)\<close>, then the controller. The two middlewares answer
  by themselves; their answers are written as the \<open>AppError\<close> with the same message,
  status and code.
\<close>

definition requireRole :: "string list \<Rightarrow> user option \<Rightarrow> error + user" where
  "requireRole allowedRoles req_user =
     (case req_user of
        None \<Rightarrow> Inl AuthRequired
      | Some usr \<Rightarrow>
          if user_role usr \<notin> set allowedRoles
          then Inl PermissionDenied_route
          else Inr usr)"

definition orderUpdate_schema :: "status_body \<Rightarrow> bool" where
  "orderUpdate_schema body =
     ((case body_status body of
         None \<Rightarrow> True
       | Some t \<Rightarrow> t \<in> set [''booked'', ''confirmed'', ''picked'', ''delivered'', ''cancelled''])
      \<and> (case body_agent_notes body of
            None \<Rightarrow> True
          | Some n \<Rightarrow> n \<noteq> [] \<and> length n \<le> 500))"

definition put_status_route :: "env \<Rightarrow> user option \<Rightarrow> uuid \<Rightarrow> status_body \<Rightarrow> store
    \<Rightarrow> (error + order) \<times> store" where
  "put_status_route e req_user i body s =
     (case requireRole [''agent'', ''admin'', ''farmer''] req_user of
        Inl err \<Rightarrow> (Inl err, s)
      | Inr usr \<Rightarrow>
          if \<not> orderUpdate_schema body
          then (Inl ValidationError, s)
          else updateOrderStatus e usr i body s)"

subsection \<open>assignAgent\<close>

text \<open>
  The update writes the commission into its DECIMAL(10,2) column, which rounds it, or
  refuses it when it does not fit; the rate 5 is kept as it is.
\<close>

definition assignAgent :: "env \<Rightarrow> user \<Rightarrow> uuid \<Rightarrow> uuid option \<Rightarrow> store
    \<Rightarrow> (error + order) \<times> store" where
  "assignAgent e usr i agent_id' s =
     (if user_role usr \<noteq> ''customer'' \<and> user_role usr \<noteq> ''admin''
      then (Inl PermissionDenied_assign, s)
      else
        case select_order s i of
          None \<Rightarrow> (Inl OrderNotFound, s)
        | Some existingOrder \<Rightarrow>
            if user_role usr = ''customer'' \<and> customer_id existingOrder \<noteq> user_id usr
            then (Inl AccessDenied_assign, s)
            else
              (case select_active_agent s agent_id' of
                 None \<Rightarrow> (Inl AgentNotFound, s)
               | Some agent \<Rightarrow>
                   (case products s (product_id existingOrder) of
                      None \<Rightarrow> (Inl TypeError, s)
                    | Some p \<Rightarrow>
                        if user_district_id agent \<noteq> Some (product_district_id p)
                        then (Inl DistrictMismatch, s)
                        else
                          let commission_rate' = 5;
                              commission' = (total_price existingOrder * commission_rate') / 100
                          in if order_update_fails e \<or> \<not> fits_10_2 commission'
                             then (Inl AssignFailed, s)
                             else
                               let s' = update_order e i
                                          (\<lambda>r. r\<lparr>agent_id := agent_id',
                                                 commission := round2 commission',
                                                 commission_rate := commission_rate'\<rparr>) s
                               in (case select_order s' i of
                                     None \<Rightarrow> (Inl AssignFailed, s')
                                   | Some ord \<Rightarrow> (Inr ord, s')))))"

subsection \<open>The scenario of the specification\<close>

text \<open>
  Customer C (key 1), agent A (key 2) in district 1, agent B (key 3) in district 2,
  farmer F (key 4), an administrator (key 5), and F's product P (key 10): price 50,
  quantity 10, district 1.
\<close>

definition customerC :: user where
  "customerC = \<lparr>user_id = 1, user_role = ''customer'', user_district_id = Some 1,
                 user_is_active = True\<rparr>"

definition agentA :: user where
  "agentA = \<lparr>user_id = 2, user_role = ''agent'', user_district_id = Some 1,
              user_is_active = True\<rparr>"

definition agentB :: user where
  "agentB = \<lparr>user_id = 3, user_role = ''agent'', user_district_id = Some 2,
              user_is_active = True\<rparr>"

definition farmerF :: user where
  "farmerF = \<lparr>user_id = 4, user_role = ''farmer'', user_district_id = Some 1,
               user_is_active = True\<rparr>"

definition adminU :: user where
  "adminU = \<lparr>user_id = 5, user_role = ''admin'', user_district_id = None,
              user_is_active = True\<rparr>"

definition productP :: product where
  "productP = \<lparr>farmer_id = 4, price = 50, product_district_id = 1,
                available_quantity = 10, product_is_active = True\<rparr>"

text \<open>A second product of F (key 12), withdrawn from sale, with quantity 1.\<close>

definition productQ :: product where
  "productQ = \<lparr>farmer_id = 4, price = 20, product_district_id = 1,
                available_quantity = 1, product_is_active = False\<rparr>"

text \<open>A second agent of district 1 (key 6).\<close>

definition agentD :: user where
  "agentD = \<lparr>user_id = 6, user_role = ''agent'', user_district_id = Some 1,
              user_is_active = True\<rparr>"

text \<open>A third product of F (key 13): price 33.33, quantity 10, district 1.\<close>

definition productR :: product where
  "productR = \<lparr>farmer_id = 4, price = 3333 / 100, product_district_id = 1,
                available_quantity = 10, product_is_active = True\<rparr>"

definition store0 :: store where
  "store0 = \<lparr>users = [1 \<mapsto> customerC, 2 \<mapsto> agentA, 3 \<mapsto> agentB, 4 \<mapsto> farmerF, 5 \<mapsto> adminU,
                       6 \<mapsto> agentD],
              products = [10 \<mapsto> productP, 12 \<mapsto> productQ, 13 \<mapsto> productR],
              orders = [],
              console = []\<rparr>"

definition env0 :: env where
  "env0 = \<lparr>now = 1000, new_id = 100, insert_fails = False, product_update_fails = False,
            order_update_fails = False, list_fails = False\<rparr>"

text \<open>C orders 3 units without an agent.\<close>

definition body0 :: create_body where
  "body0 = \<lparr>body_product_id = 10, body_quantity = 3, body_agent_id = None,
             body_delivery_address = None, body_customer_notes = None\<rparr>"

text \<open>The row that request stores, and the store after it.\<close>

definition order0 :: order where
  "order0 = \<lparr>order_id = 100, product_id = 10, customer_id = 1, agent_id = None,
              quantity = 3, unit_price = 50, total_price = 150, commission = 0,
              commission_rate = 5, status = ''booked'', delivery_address = None,
              customer_notes = None, agent_notes = None, created_at = 1000,
              updated_at = 1000\<rparr>"

definition store1 :: store where
  "store1 = store0\<lparr>orders := [order0],
                    products := (products store0)(10 \<mapsto> productP\<lparr>available_quantity := 7\<rparr>)\<rparr>"

text \<open>
  Then C assigns agent A to that order (5 percent of 150 is 7.50), and the clock moves
  on.
\<close>

definition order1 :: order where
  "order1 = order0\<lparr>agent_id := Some 2, commission := 15 / 2\<rparr>"

definition store2 :: store where
  "store2 = store1\<lparr>orders := [order1]\<rparr>"

definition env1 :: env where
  "env1 = env0\<lparr>now := 2000\<rparr>"

text \<open>The same order once delivered.\<close>

definition order_delivered :: order where
  "order_delivered = order1\<lparr>status := ''delivered''\<rparr>"

definition store_delivered :: store where
  "store_delivered = store1\<lparr>orders := [order_delivered]\<rparr>"

text \<open>Requests to change the status.\<close>

definition to_confirmed :: status_body where
  "to_confirmed = \<lparr>body_status = Some ''confirmed'', body_agent_notes = None\<rparr>"

definition to_delivered :: status_body where
  "to_delivered = \<lparr>body_status = Some ''delivered'', body_agent_notes = None\<rparr>"

definition to_cancelled_with_notes :: status_body where
  "to_cancelled_with_notes =
     \<lparr>body_status = Some ''cancelled'', body_agent_notes = Some ''customer unreachable''\<rparr>"

text \<open>
  A store in which C has placed 21 orders, one per tick of the clock, and the request
  that passes no query parameter.
\<close>

definition order_n :: "nat \<Rightarrow> order" where
  "order_n n = order0\<lparr>order_id := 100 + n, created_at := 1000 + n, updated_at := 1000 + n\<rparr>"

definition store21 :: store where
  "store21 = store1\<lparr>orders := map order_n [0..<21]\<rparr>"

definition default_query :: list_query where
  "default_query = \<lparr>q_status = None, q_page = None, q_limit = None, q_sort_by = None,
                     q_sort_order = None\<rparr>"

text \<open>
  C orders half a unit of the product at 33.33, and an order of one unit of it, as
  stored.
\<close>

definition body_half :: create_body where
  "body_half = \<lparr>body_product_id = 13, body_quantity = 1 / 2, body_agent_id = None,
                 body_delivery_address = None, body_customer_notes = None\<rparr>"

definition order33 :: order where
  "order33 = order0\<lparr>product_id := 13, quantity := 1, unit_price := 3333 / 100,
                     total_price := 3333 / 100\<rparr>"

definition store33 :: store where
  "store33 = store1\<lparr>orders := [order33]\<rparr>"

subsection \<open>The specification's own notions\<close>

text \<open>
  The adjacency sets as the specification words them: booked to confirmed or
  cancelled, confirmed to picked or cancelled, picked to delivered or cancelled; delivered
  and cancelled are terminal. Anything that is not a state has no successor.
\<close>

definition adjacency :: "string \<Rightarrow> string set" where
  "adjacency st =
     (if st = ''booked'' then {''confirmed'', ''cancelled''}
      else if st = ''confirmed'' then {''picked'', ''cancelled''}
      else if st = ''picked'' then {''delivered'', ''cancelled''}
      else {})"

definition states :: "string set" where
  "states = {''booked'', ''confirmed'', ''picked'', ''delivered'', ''cancelled''}"



section \<open>Properties\<close>

subsection \<open>Auxiliary facts about the store\<close>

lemma floor_rat_numeral:
  "\<lfloor>numeral a / numeral b :: rat\<rfloor> = numeral a div numeral b"
  using floor_divide_of_int_eq[of "numeral a" "numeral b", where ?'a = rat] by simp

lemma floor_rat_one_numeral:
  "\<lfloor>1 / numeral b :: rat\<rfloor> = 1 div numeral b"
  using floor_divide_of_int_eq[of 1 "numeral b", where ?'a = rat] by simp

lemmas round2_eval = round2_def fits_10_2_def floor_rat_numeral floor_rat_one_numeral


lemma filter_fresh:
  "i \<notin> order_id ` set rows \<Longrightarrow> filter (\<lambda>x. order_id x = i) rows = []"
  by (induction rows) auto

lemma select_active_product_Some:
  "select_active_product s i = Some P \<longleftrightarrow> products s i = Some P \<and> product_is_active P"
  by (auto simp: select_active_product_def split: option.splits)

lemma select_active_agent_Some:
  "select_active_agent s a = Some u \<longleftrightarrow>
     (\<exists>i. a = Some i \<and> users s i = Some u \<and> user_role u = ''agent'' \<and> user_is_active u)"
  by (auto simp: select_active_agent_def split: option.splits)

lemma single_Some: "single xs = Some x \<longleftrightarrow> xs = [x]"
  by (cases xs rule: single.cases) auto

lemma filter_map_keys:
  "(\<And>x. P (f x) = P x) \<Longrightarrow> filter P (map f xs) = map f (filter P xs)"
  by (induction xs) auto

lemma select_order_key: "select_order s i = Some ord \<Longrightarrow> order_id ord = i"
proof -
  assume "select_order s i = Some ord"
  then have "filter (\<lambda>r. order_id r = i) (orders s) = [ord]"
    by (simp add: select_order_def single_Some)
  then have "ord \<in> set (filter (\<lambda>r. order_id r = i) (orders s))" by simp
  then show ?thesis by simp
qed

lemma select_order_update:
  assumes sel: "select_order s i = Some ord"
      and key: "\<And>r. order_id (patch r) = order_id r"
  shows "select_order (update_order e i patch s) i = Some ((patch ord)\<lparr>updated_at := now e\<rparr>)"
proof -
  let ?f = "\<lambda>r. if order_id r = i then (patch r)\<lparr>updated_at := now e\<rparr> else r"
  from sel have one: "filter (\<lambda>r. order_id r = i) (orders s) = [ord]"
    by (simp add: select_order_def single_Some)
  have "filter (\<lambda>r. order_id r = i) (map ?f (orders s))
          = map ?f (filter (\<lambda>r. order_id r = i) (orders s))"
    by (rule filter_map_keys) (simp add: key)
  with one select_order_key[OF sel] show ?thesis
    by (simp add: select_order_def update_order_def)
qed

lemma update_order_frame:
  "users (update_order e i patch s) = users s
   \<and> products (update_order e i patch s) = products s
   \<and> console (update_order e i patch s) = console s"
  by (simp add: update_order_def)

lemma select_order_unique:
  assumes "select_order s i = Some ord" and "x \<in> set (orders s)" and "order_id x = i"
  shows "x = ord"
proof -
  from assms(1) have "filter (\<lambda>r. order_id r = i) (orders s) = [ord]"
    by (simp add: select_order_def single_Some)
  moreover from assms(2,3) have "x \<in> set (filter (\<lambda>r. order_id r = i) (orders s))" by simp
  ultimately show ?thesis by simp
qed

lemma update_order_rows:
  assumes "select_order s i = Some ord"
  shows "orders (update_order e i patch s)
     = map (\<lambda>x. if order_id x = i then (patch ord)\<lparr>updated_at := now e\<rparr> else x) (orders s)"
  unfolding update_order_def
  using select_order_unique[OF assms] by (auto intro!: map_cong)

lemma select_active_agent_None:
  "select_active_agent s a = None \<longleftrightarrow>
     (\<forall>i u. a = Some i \<longrightarrow> users s i = Some u
            \<longrightarrow> \<not> (user_role u = ''agent'' \<and> user_is_active u))"
  by (auto simp: select_active_agent_def split: option.splits)

lemmas scenario_defs = env0_def customerC_def agentA_def agentB_def farmerF_def adminU_def
  agentD_def
  productP_def productQ_def store0_def body0_def order0_def store1_def order1_def store2_def
  env1_def order_delivered_def store_delivered_def to_confirmed_def to_delivered_def
  to_cancelled_with_notes_def order_n_def store21_def default_query_def productR_def
  body_half_def order33_def store33_def

lemmas createOrder_defs = createOrder_def create_writes_def select_active_product_def
  select_active_agent_def orderData_def orders_accepts_def stored_order_def update_product_def
  round2_eval Let_def

subsection \<open>createOrder\<close>

lemma create_writes_effects:
  assumes "create_writes e usr body P ad s = (Inr ord, s')"
      and "products s (body_product_id body) = Some P"
  shows "ord = stored_order (orderData e usr body P ad)
     \<and> orders s' = orders s @ [ord] \<and> users s' = users s
     \<and> (if product_update_fails e
              \<or> \<not> fits_10_2 (available_quantity P - body_quantity body)
         then products s' = products s
              \<and> console s' = console s @ [''Failed to update product quantity:'']
         else products s' = (products s)(body_product_id body \<mapsto>
                 P\<lparr>available_quantity :=
                     round2 (available_quantity P - body_quantity body)\<rparr>)
              \<and> console s' = console s)
     \<and> (\<forall>ps. select_order (s'\<lparr>products := ps\<rparr>) (order_id ord) = Some ord)"
  using assms
  by (auto simp: create_writes_def Let_def select_order_def orderData_def stored_order_def
        filter_fresh update_product_def split: if_splits)


lemma createOrder_reaches_writes:
  assumes "createOrder e usr body s = (Inr ord, s')"
  shows "\<exists>P. select_active_product s (body_product_id body) = Some P
     \<and> createOrder e usr body s
         = create_writes e usr body P (body_agent_id body \<noteq> None) s"
  using assms
  by (auto simp: createOrder_def split: if_splits option.splits)




text \<open>
  C5. createOrder validates in a fixed order, and the first failing check decides the
  error, whatever the later checks would say: a role other than customer and admin gives
  PermissionDenied; then a missing or inactive product gives NotFound; then a quantity
  above the product's available quantity gives InsufficientStock; then, only when an agent
  id is given, an agent that is missing, is not an agent or is inactive gives NotFound,
  and an agent of another district gives DistrictMismatch. When every check passes (with
  no agent id no user is looked up) the call goes on to its writes.
\<close>

theorem createOrder_validation_order:
  fixes e usr body s
  defines "pid \<equiv> body_product_id body" and "q \<equiv> body_quantity body"
  defines "role_ok \<equiv> (user_role usr = ''customer'' \<or> user_role usr = ''admin'')"
  defines "agent_ok P a \<equiv> (\<exists>ag. users s a = Some ag \<and> user_role ag = ''agent'' \<and> user_is_active ag
                               \<and> user_district_id ag = Some (product_district_id P))"
  shows "(\<not> role_ok \<longrightarrow> createOrder e usr body s = (Inl PermissionDenied_create, s))
   \<and> (role_ok \<and> (products s pid = None \<or> (\<exists>P. products s pid = Some P \<and> \<not> product_is_active P))
        \<longrightarrow> createOrder e usr body s = (Inl ProductNotFound, s))
   \<and> (\<forall>P. role_ok \<and> products s pid = Some P \<and> product_is_active P \<and> available_quantity P < q
        \<longrightarrow> createOrder e usr body s = (Inl InsufficientStock, s))
   \<and> (\<forall>P a. role_ok \<and> products s pid = Some P \<and> product_is_active P \<and> q \<le> available_quantity P
          \<and> body_agent_id body = Some a
          \<and> (users s a = None
              \<or> (\<exists>ag. users s a = Some ag \<and> (user_role ag \<noteq> ''agent'' \<or> \<not> user_is_active ag)))
        \<longrightarrow> createOrder e usr body s = (Inl AgentNotFound, s))
   \<and> (\<forall>P a ag. role_ok \<and> products s pid = Some P \<and> product_is_active P \<and> q \<le> available_quantity P
          \<and> body_agent_id body = Some a
          \<and> users s a = Some ag \<and> user_role ag = ''agent'' \<and> user_is_active ag
          \<and> user_district_id ag \<noteq> Some (product_district_id P)
        \<longrightarrow> createOrder e usr body s = (Inl DistrictMismatch, s))
   \<and> (\<forall>P. role_ok \<and> products s pid = Some P \<and> product_is_active P \<and> q \<le> available_quantity P
          \<and> (body_agent_id body = None \<or> (\<exists>a. body_agent_id body = Some a \<and> agent_ok P a))
        \<longrightarrow> createOrder e usr body s
              = create_writes e usr body P (body_agent_id body \<noteq> None) s)"
  unfolding pid_def q_def role_ok_def agent_ok_def
  by (auto simp: createOrder_def select_active_product_def select_active_agent_def
           split: option.splits)


theorem createOrder_validation_order_witness:
  "createOrder env0 farmerF (body0\<lparr>body_product_id := 11\<rparr>) store0
     = (Inl PermissionDenied_create, store0)
   \<and> createOrder env0 customerC (body0\<lparr>body_product_id := 12, body_agent_id := Some 3\<rparr>) store0
     = (Inl ProductNotFound, store0)
   \<and> createOrder env0 customerC (body0\<lparr>body_quantity := 11, body_agent_id := Some 3\<rparr>) store0
     = (Inl InsufficientStock, store0)
   \<and> createOrder env0 customerC (body0\<lparr>body_agent_id := Some 1\<rparr>) store0
     = (Inl AgentNotFound, store0)
   \<and> createOrder env0 customerC (body0\<lparr>body_agent_id := Some 3\<rparr>) store0
     = (Inl DistrictMismatch, store0)
   \<and> createOrder env0 customerC body0 store0
     = create_writes env0 customerC body0 productP False store0"
proof -
  note v = createOrder_validation_order
  have 1: "createOrder env0 farmerF (body0\<lparr>body_product_id := 11\<rparr>) store0
     = (Inl PermissionDenied_create, store0)"
    using v[where usr = farmerF and body = "body0\<lparr>body_product_id := 11\<rparr>"
              and s = store0 and e = env0]
    by (simp add: farmerF_def)
  have 2: "createOrder env0 customerC (body0\<lparr>body_product_id := 12, body_agent_id := Some 3\<rparr>) store0
     = (Inl ProductNotFound, store0)"
    using v[where usr = customerC
              and body = "body0\<lparr>body_product_id := 12, body_agent_id := Some 3\<rparr>"
              and s = store0 and e = env0]
    by (simp add: customerC_def store0_def productQ_def body0_def)
  have 3: "createOrder env0 customerC (body0\<lparr>body_quantity := 11, body_agent_id := Some 3\<rparr>) store0
     = (Inl InsufficientStock, store0)"
    using v[where usr = customerC
              and body = "body0\<lparr>body_quantity := 11, body_agent_id := Some 3\<rparr>"
              and s = store0 and e = env0]
    by (simp add: customerC_def store0_def productP_def body0_def)
  have 4: "createOrder env0 customerC (body0\<lparr>body_agent_id := Some 1\<rparr>) store0
     = (Inl AgentNotFound, store0)"
    using v[where usr = customerC and body = "body0\<lparr>body_agent_id := Some 1\<rparr>"
              and s = store0 and e = env0]
    by (simp add: customerC_def store0_def productP_def body0_def)
  have 5: "createOrder env0 customerC (body0\<lparr>body_agent_id := Some 3\<rparr>) store0
     = (Inl DistrictMismatch, store0)"
    using v[where usr = customerC and body = "body0\<lparr>body_agent_id := Some 3\<rparr>"
              and s = store0 and e = env0]
    by (simp add: customerC_def agentB_def store0_def productP_def body0_def)
  have 6: "createOrder env0 customerC body0 store0
     = create_writes env0 customerC body0 productP False store0"
    using v[where usr = customerC and body = body0 and s = store0 and e = env0]
    by (simp add: customerC_def store0_def productP_def body0_def)
  from 1 2 3 4 5 6 show ?thesis by blast
qed

text \<open>
  C6, as amended. For every product and every requested quantity above the product's
  available quantity, createOrder fails and leaves the store as it was: no order is
  stored and nothing is written. The failure is InsufficientStock when the caller's role
  is customer or admin and the product is active.
\<close>

theorem createOrder_insufficient_stock:
  assumes "products s (body_product_id body) = Some P"
      and "available_quantity P < body_quantity body"
  shows "(\<exists>err. createOrder e usr body s = (Inl err, s))
     \<and> ((user_role usr = ''customer'' \<or> user_role usr = ''admin'') \<and> product_is_active P
          \<longrightarrow> createOrder e usr body s = (Inl InsufficientStock, s))"
  using assms
  by (auto simp: createOrder_def select_active_product_def)

theorem createOrder_insufficient_stock_witness:
  "products store0 10 = Some productP
   \<and> available_quantity productP < 11
   \<and> createOrder env0 customerC (body0\<lparr>body_quantity := 11\<rparr>) store0
       = (Inl InsufficientStock, store0)"
  using createOrder_insufficient_stock[where s = store0 and body = "body0\<lparr>body_quantity := 11\<rparr>"
          and P = productP and usr = customerC and e = env0]
  by (simp add: store0_def body0_def productP_def customerC_def)

text \<open>
  C6 as stated fails: for the inactive product Q (quantity 1) and a requested quantity
  of 3, customer C is answered NotFound, not InsufficientStock, because the product
  lookup precedes the stock check.
\<close>

theorem createOrder_insufficient_stock_counterexample:
  "products store0 12 = Some productQ
   \<and> available_quantity productQ < body_quantity (body0\<lparr>body_product_id := 12\<rparr>)
   \<and> createOrder env0 customerC (body0\<lparr>body_product_id := 12\<rparr>) store0
       = (Inl ProductNotFound, store0)
   \<and> ProductNotFound \<noteq> InsufficientStock"
  by (simp add: createOrder_defs scenario_defs)

text \<open>
  C10. The order a successful createOrder stores has the caller's own id as its
  customer, for an administrator as for a customer: the request body has no customer
  field, and the stored row is the new last row of the table.
\<close>

theorem createOrder_customer_is_caller:
  assumes "createOrder e usr body s = (Inr ord, s')"
  shows "customer_id ord = user_id usr \<and> orders s' = orders s @ [ord]"
proof -
  from createOrder_reaches_writes[OF assms] obtain P
    where P: "select_active_product s (body_product_id body) = Some P"
      and w: "createOrder e usr body s
                = create_writes e usr body P (body_agent_id body \<noteq> None) s"
    by blast
  from P have pp: "products s (body_product_id body) = Some P"
    by (simp add: select_active_product_Some)
  from w assms have "create_writes e usr body P (body_agent_id body \<noteq> None) s = (Inr ord, s')"
    by simp
  from create_writes_effects[OF this pp] show ?thesis
    by (simp add: orderData_def stored_order_def Let_def)
qed

theorem createOrder_customer_is_caller_witness:
  "createOrder env0 adminU body0 store0
     = (Inr (order0\<lparr>customer_id := 5\<rparr>), store1\<lparr>orders := [order0\<lparr>customer_id := 5\<rparr>]\<rparr>)
   \<and> customer_id (order0\<lparr>customer_id := 5\<rparr>) = user_id adminU
   \<and> orders (store1\<lparr>orders := [order0\<lparr>customer_id := 5\<rparr>]\<rparr>)
       = orders store0 @ [order0\<lparr>customer_id := 5\<rparr>]"
proof -
  have run: "createOrder env0 adminU body0 store0
     = (Inr (order0\<lparr>customer_id := 5\<rparr>), store1\<lparr>orders := [order0\<lparr>customer_id := 5\<rparr>]\<rparr>)"
    by (simp add: createOrder_defs scenario_defs)
  from createOrder_customer_is_caller[OF run] run show ?thesis by simp
qed

subsection \<open>updateOrderStatus\<close>

lemmas updateOrderStatus_defs = updateOrderStatus_def select_order_def canUpdate_def
  check_transition_def validTransitions_def update_order_def updateData_def truthy_def Let_def

lemma updateData_key: "order_id (updateData t notes r) = order_id r"
  by (simp add: updateData_def)

lemma validTransitions_cases:
  "(validTransitions st = None \<and> adjacency st = {} \<and> st \<notin> states)
   \<or> (\<exists>adj. validTransitions st = Some adj \<and> set adj = adjacency st \<and> st \<in> states)"
proof -
  consider "st = ''booked''" | "st = ''confirmed''" | "st = ''picked''" | "st = ''delivered''"
    | "st = ''cancelled''"
    | "st \<noteq> ''booked''" "st \<noteq> ''confirmed''" "st \<noteq> ''picked''" "st \<noteq> ''delivered''"
      "st \<noteq> ''cancelled''"
    by blast
  then show ?thesis
  proof cases
    case 1 then show ?thesis by (simp add: validTransitions_def adjacency_def states_def)
  next
    case 2 then show ?thesis by (simp add: validTransitions_def adjacency_def states_def)
  next
    case 3 then show ?thesis by (simp add: validTransitions_def adjacency_def states_def)
  next
    case 4 then show ?thesis by (simp add: validTransitions_def adjacency_def states_def)
  next
    case 5 then show ?thesis by (simp add: validTransitions_def adjacency_def states_def)
  next
    case 6 then show ?thesis by (simp add: validTransitions_def adjacency_def states_def)
  qed
qed


lemma check_transition_adjacency:
  "check_transition st target = Inr t \<longleftrightarrow> target = Some t \<and> t \<in> adjacency st"
proof -
  from validTransitions_cases[of st] show ?thesis
  proof (elim disjE conjE exE)
    assume "validTransitions st = None" "adjacency st = {}"
    then show ?thesis by (simp add: check_transition_def)
  next
    fix adj assume "validTransitions st = Some adj" "set adj = adjacency st"
    then show ?thesis by (cases target) (auto simp add: check_transition_def)
  qed
qed

lemma check_transition_invalid:
  assumes "st \<in> states" and "\<not> (\<exists>t. target = Some t \<and> t \<in> adjacency st)"
  shows "check_transition st target
           = Inl (InvalidTransition st (case target of None \<Rightarrow> ''undefined'' | Some t \<Rightarrow> t))"
proof -
  from validTransitions_cases[of st] assms(1) obtain adj
    where "validTransitions st = Some adj" "set adj = adjacency st" by blast
  with assms(2) show ?thesis by (cases target) (simp_all add: check_transition_def)
qed


lemma updateOrderStatus_run:
  assumes sel: "select_order s i = Some ord"
  shows "updateOrderStatus e usr i body s =
     (case canUpdate usr ord s of
        Inl err \<Rightarrow> (Inl err, s)
      | Inr ok \<Rightarrow>
          if \<not> ok then (Inl PermissionDenied_update, s)
          else (case check_transition (status ord) (body_status body) of
                  Inl err \<Rightarrow> (Inl err, s)
                | Inr t \<Rightarrow>
                    if order_update_fails e then (Inl UpdateFailed, s)
                    else (Inr ((updateData t (body_agent_notes body) ord)\<lparr>updated_at := now e\<rparr>),
                          update_order e i (updateData t (body_agent_notes body)) s)))"
  by (simp add: updateOrderStatus_def sel select_order_update[OF sel updateData_key] Let_def
           split: sum.splits)

lemma updateOrderStatus_success:
  assumes "updateOrderStatus e usr i body s = (Inr r, s')"
  shows "\<exists>ord t. select_order s i = Some ord \<and> canUpdate usr ord s = Inr True
     \<and> check_transition (status ord) (body_status body) = Inr t
     \<and> \<not> order_update_fails e
     \<and> r = (updateData t (body_agent_notes body) ord)\<lparr>updated_at := now e\<rparr>
     \<and> s' = update_order e i (updateData t (body_agent_notes body)) s"
proof (cases "select_order s i")
  case None
  with assms show ?thesis by (simp add: updateOrderStatus_def)
next
  case (Some ord)
  from assms show ?thesis
    unfolding updateOrderStatus_run[OF Some]
    by (auto simp: Some split: sum.splits if_splits)
qed


lemma canUpdate_meaning:
  assumes "products s (product_id ord) = Some P"
  shows "canUpdate usr ord s
     = Inr (user_role usr = ''admin''
            \<or> (user_role usr = ''agent'' \<and> agent_id ord = Some (user_id usr))
            \<or> (user_role usr = ''farmer'' \<and> farmer_id P = user_id usr))"
  using assms by (simp add: canUpdate_def)

text \<open>
  C2, as amended. The status of an order moves along the adjacency sets only. The
  transition check of updateOrderStatus accepts a requested target exactly when it is in
  the adjacency set of the order's current status (booked: confirmed, cancelled;
  confirmed: picked, cancelled; picked: delivered, cancelled; delivered and cancelled:
  none). For every stored order: no caller's request succeeds unless the target is
  adjacent; for a caller who passes the authorization check, with the store accepting the
  write, the request succeeds, and sets that status, exactly when the target is adjacent,
  and fails with InvalidTransition otherwise (an absent target included); from delivered
  and from cancelled every request fails, with InvalidTransition for every caller who
  passes the authorization check.
\<close>

theorem updateStatus_transition:
  assumes ex: "select_order s i = Some ord"
      and st: "status ord \<in> states"
  shows "(\<forall>t. check_transition (status ord) (body_status body) = Inr t
              \<longleftrightarrow> body_status body = Some t \<and> t \<in> adjacency (status ord))
     \<and> ((\<exists>r s'. updateOrderStatus e usr i body s = (Inr r, s'))
          \<longrightarrow> (\<exists>t. body_status body = Some t \<and> t \<in> adjacency (status ord)))
     \<and> (canUpdate usr ord s = Inr True \<and> \<not> order_update_fails e
          \<longrightarrow> ((\<exists>r s'. updateOrderStatus e usr i body s = (Inr r, s')
                         \<and> Some (status r) = body_status body)
               \<longleftrightarrow> (\<exists>t. body_status body = Some t \<and> t \<in> adjacency (status ord))))
     \<and> (canUpdate usr ord s = Inr True
            \<and> \<not> (\<exists>t. body_status body = Some t \<and> t \<in> adjacency (status ord))
          \<longrightarrow> updateOrderStatus e usr i body s
               = (Inl (InvalidTransition (status ord)
                        (case body_status body of None \<Rightarrow> ''undefined'' | Some t \<Rightarrow> t)), s))
     \<and> (status ord = ''delivered'' \<or> status ord = ''cancelled''
          \<longrightarrow> adjacency (status ord) = {}
              \<and> (\<exists>err. updateOrderStatus e usr i body s = (Inl err, s))
              \<and> (canUpdate usr ord s = Inr True
                   \<longrightarrow> updateOrderStatus e usr i body s
                        = (Inl (InvalidTransition (status ord)
                             (case body_status body of None \<Rightarrow> ''undefined'' | Some t \<Rightarrow> t)), s)))"
proof -
  let ?valid = "\<exists>t. body_status body = Some t \<and> t \<in> adjacency (status ord)"
  let ?inv = "Inl (InvalidTransition (status ord)
                (case body_status body of None \<Rightarrow> ''undefined'' | Some t \<Rightarrow> t))"
  have A: "\<forall>t. check_transition (status ord) (body_status body) = Inr t
              \<longleftrightarrow> body_status body = Some t \<and> t \<in> adjacency (status ord)"
    by (simp add: check_transition_adjacency)
  have B: "(\<exists>r s'. updateOrderStatus e usr i body s = (Inr r, s')) \<longrightarrow> ?valid"
  proof
    assume "\<exists>r s'. updateOrderStatus e usr i body s = (Inr r, s')"
    then obtain r s' where "updateOrderStatus e usr i body s = (Inr r, s')" by blast
    from updateOrderStatus_success[OF this] ex obtain t
      where "check_transition (status ord) (body_status body) = Inr t" by auto
    then show ?valid by (simp add: check_transition_adjacency)
  qed
  have D: "canUpdate usr ord s = Inr True \<and> \<not> ?valid
            \<longrightarrow> updateOrderStatus e usr i body s = (?inv, s)"
  proof
    assume h: "canUpdate usr ord s = Inr True \<and> \<not> ?valid"
    then have "check_transition (status ord) (body_status body) = ?inv"
      using check_transition_invalid[OF st] by blast
    with h show "updateOrderStatus e usr i body s = (?inv, s)"
      by (simp add: updateOrderStatus_run[OF ex])
  qed
  have C: "canUpdate usr ord s = Inr True \<and> \<not> order_update_fails e
          \<longrightarrow> ((\<exists>r s'. updateOrderStatus e usr i body s = (Inr r, s')
                         \<and> Some (status r) = body_status body) \<longleftrightarrow> ?valid)"
  proof (intro impI iffI)
    assume "\<exists>r s'. updateOrderStatus e usr i body s = (Inr r, s')
                         \<and> Some (status r) = body_status body"
    with B show ?valid by blast
  next
    assume h: "canUpdate usr ord s = Inr True \<and> \<not> order_update_fails e" and v: ?valid
    then obtain t where t: "body_status body = Some t" "t \<in> adjacency (status ord)" by blast
    then have "check_transition (status ord) (body_status body) = Inr t"
      by (simp add: check_transition_adjacency)
    with h t show "\<exists>r s'. updateOrderStatus e usr i body s = (Inr r, s')
                         \<and> Some (status r) = body_status body"
      by (simp add: updateOrderStatus_run[OF ex] updateData_def)
  qed
  have E: "status ord = ''delivered'' \<or> status ord = ''cancelled''
          \<longrightarrow> adjacency (status ord) = {}
              \<and> (\<exists>err. updateOrderStatus e usr i body s = (Inl err, s))
              \<and> (canUpdate usr ord s = Inr True
                   \<longrightarrow> updateOrderStatus e usr i body s = (?inv, s))"
  proof
    assume fin: "status ord = ''delivered'' \<or> status ord = ''cancelled''"
    then have adj: "adjacency (status ord) = {}"
      by (auto simp: adjacency_def)
    then have nv: "\<not> ?valid" by simp
    then have chk: "check_transition (status ord) (body_status body) = ?inv"
      using check_transition_invalid[OF st] by blast
    have "\<exists>err. updateOrderStatus e usr i body s = (Inl err, s)"
      by (simp add: updateOrderStatus_run[OF ex] chk split: sum.splits)
    moreover have "canUpdate usr ord s = Inr True
                   \<longrightarrow> updateOrderStatus e usr i body s = (?inv, s)"
      using D nv by blast
    ultimately show "adjacency (status ord) = {}
              \<and> (\<exists>err. updateOrderStatus e usr i body s = (Inl err, s))
              \<and> (canUpdate usr ord s = Inr True
                   \<longrightarrow> updateOrderStatus e usr i body s = (?inv, s))"
      using adj by blast
  qed
  from A B C D E show ?thesis by blast
qed


theorem updateStatus_transition_witness:
  "select_order store2 100 = Some order1
   \<and> status order1 = ''booked''
   \<and> canUpdate agentA order1 store2 = Inr True
   \<and> fst (updateOrderStatus env1 agentA 100 to_confirmed store2)
       = Inr (order1\<lparr>status := ''confirmed'', updated_at := 2000\<rparr>)
   \<and> updateOrderStatus env1 agentA 100 to_delivered store2
       = (Inl (InvalidTransition ''booked'' ''delivered''), store2)
   \<and> select_order store_delivered 100 = Some order_delivered
   \<and> updateOrderStatus env1 adminU 100 to_confirmed store_delivered
       = (Inl (InvalidTransition ''delivered'' ''confirmed''), store_delivered)"
proof -
  have exd: "select_order store_delivered 100 = Some order_delivered"
    by (simp add: select_order_def scenario_defs)
  have std: "status order_delivered \<in> states"
    by (simp add: states_def scenario_defs)
  have cand: "canUpdate adminU order_delivered store_delivered = Inr True"
    by (simp add: canUpdate_def scenario_defs)
  from updateStatus_transition[OF exd std, where body = to_confirmed and e = env1
         and usr = adminU] cand
  have fin: "updateOrderStatus env1 adminU 100 to_confirmed store_delivered
       = (Inl (InvalidTransition ''delivered'' ''confirmed''), store_delivered)"
    by (simp add: to_confirmed_def order_delivered_def)
  have ex: "select_order store2 100 = Some order1"
    by (simp add: select_order_def scenario_defs)
  have st: "status order1 \<in> states"
    by (simp add: states_def scenario_defs)
  have can: "canUpdate agentA order1 store2 = Inr True"
    by (simp add: canUpdate_def scenario_defs)
  have run: "fst (updateOrderStatus env1 agentA 100 to_confirmed store2)
       = Inr (order1\<lparr>status := ''confirmed'', updated_at := 2000\<rparr>)"
    by (simp add: updateOrderStatus_defs scenario_defs)
  have nv: "\<not> (\<exists>t. body_status to_delivered = Some t \<and> t \<in> adjacency (status order1))"
    by (simp add: adjacency_def scenario_defs)
  from updateStatus_transition[OF ex st, where body = to_delivered and e = env1 and usr = agentA] can nv
  have "updateOrderStatus env1 agentA 100 to_delivered store2
       = (Inl (InvalidTransition (status order1) ''delivered''), store2)"
    by (simp add: to_delivered_def)
  with ex can run exd fin show ?thesis by (simp add: scenario_defs)
qed

text \<open>
  C2 as stated fails, because authorization comes first: agent B, who is not assigned to
  the order, is answered PermissionDenied and not InvalidTransition when asking to move
  the delivered order, and is refused the adjacent move from booked to confirmed.
\<close>

theorem updateStatus_transition_counterexample:
  "select_order store_delivered 100 = Some order_delivered
   \<and> status order_delivered = ''delivered''
   \<and> updateOrderStatus env1 agentB 100 to_confirmed store_delivered
       = (Inl PermissionDenied_update, store_delivered)
   \<and> PermissionDenied_update \<noteq> InvalidTransition ''delivered'' ''confirmed''
   \<and> select_order store2 100 = Some order1
   \<and> status order1 = ''booked''
   \<and> body_status to_confirmed = Some ''confirmed''
   \<and> ''confirmed'' \<in> adjacency ''booked''
   \<and> updateOrderStatus env1 agentB 100 to_confirmed store2
       = (Inl PermissionDenied_update, store2)"
  by (simp add: updateOrderStatus_defs adjacency_def scenario_defs)

text \<open>
  C7. For every stored order, updateOrderStatus succeeds only for an administrator, for
  the agent assigned to the order, or for the farmer who owns the order's product. Every
  other caller is answered PermissionDenied, whatever the requested target and the
  current status are: the transition is not looked at. A customer, the order's own
  customer included, is refused by the handler and already by the route's role check.
\<close>

theorem updateStatus_authorization:
  assumes ex: "select_order s i = Some ord"
      and pr: "products s (product_id ord) = Some P"
  shows "((\<exists>r s'. updateOrderStatus e usr i body s = (Inr r, s'))
          \<longrightarrow> (user_role usr = ''admin''
               \<or> (user_role usr = ''agent'' \<and> agent_id ord = Some (user_id usr))
               \<or> (user_role usr = ''farmer'' \<and> farmer_id P = user_id usr)))
     \<and> (\<not> (user_role usr = ''admin''
             \<or> (user_role usr = ''agent'' \<and> agent_id ord = Some (user_id usr))
             \<or> (user_role usr = ''farmer'' \<and> farmer_id P = user_id usr))
          \<longrightarrow> updateOrderStatus e usr i body s = (Inl PermissionDenied_update, s))
     \<and> (user_role usr = ''customer''
          \<longrightarrow> updateOrderStatus e usr i body s = (Inl PermissionDenied_update, s)
              \<and> put_status_route e (Some usr) i body s = (Inl PermissionDenied_route, s))"
proof -
  let ?may = "user_role usr = ''admin''
               \<or> (user_role usr = ''agent'' \<and> agent_id ord = Some (user_id usr))
               \<or> (user_role usr = ''farmer'' \<and> farmer_id P = user_id usr)"
  have can: "canUpdate usr ord s = Inr ?may" by (rule canUpdate_meaning[OF pr])
  have deny: "\<not> ?may \<longrightarrow> updateOrderStatus e usr i body s = (Inl PermissionDenied_update, s)"
    by (simp add: updateOrderStatus_run[OF ex] can)
  have only: "(\<exists>r s'. updateOrderStatus e usr i body s = (Inr r, s')) \<longrightarrow> ?may"
    using deny by auto
  have cust: "user_role usr = ''customer''
          \<longrightarrow> updateOrderStatus e usr i body s = (Inl PermissionDenied_update, s)
              \<and> put_status_route e (Some usr) i body s = (Inl PermissionDenied_route, s)"
  proof
    assume c: "user_role usr = ''customer''"
    then have "\<not> ?may" by simp
    with deny have "updateOrderStatus e usr i body s = (Inl PermissionDenied_update, s)" by blast
    moreover from c have "put_status_route e (Some usr) i body s = (Inl PermissionDenied_route, s)"
      by (simp add: put_status_route_def requireRole_def)
    ultimately show "updateOrderStatus e usr i body s = (Inl PermissionDenied_update, s)
              \<and> put_status_route e (Some usr) i body s = (Inl PermissionDenied_route, s)" by blast
  qed
  from only deny cust show ?thesis by blast
qed

theorem updateStatus_authorization_witness:
  "select_order store2 100 = Some order1
   \<and> products store2 (product_id order1) = Some (productP\<lparr>available_quantity := 7\<rparr>)
   \<and> updateOrderStatus env1 customerC 100 to_confirmed store2
       = (Inl PermissionDenied_update, store2)
   \<and> put_status_route env1 (Some customerC) 100 to_confirmed store2
       = (Inl PermissionDenied_route, store2)
   \<and> updateOrderStatus env1 agentB 100 to_delivered store2
       = (Inl PermissionDenied_update, store2)"
proof -
  have ex: "select_order store2 100 = Some order1"
    by (simp add: select_order_def scenario_defs)
  have pr: "products store2 (product_id order1) = Some (productP\<lparr>available_quantity := 7\<rparr>)"
    by (simp add: scenario_defs)
  note a = updateStatus_authorization[OF ex pr]
  from a[where usr = customerC and e = env1 and body = to_confirmed]
  have c: "updateOrderStatus env1 customerC 100 to_confirmed store2
       = (Inl PermissionDenied_update, store2)
     \<and> put_status_route env1 (Some customerC) 100 to_confirmed store2
       = (Inl PermissionDenied_route, store2)"
    by (simp add: customerC_def)
  from a[where usr = agentB and e = env1 and body = to_delivered]
  have b: "updateOrderStatus env1 agentB 100 to_delivered store2
       = (Inl PermissionDenied_update, store2)"
    by (simp add: agentB_def order1_def order0_def)
  from ex pr c b show ?thesis by blast
qed

text \<open>
  C9, as amended. A successful updateOrderStatus changes, of the order's fields, the
  status, the agent notes when agent notes were supplied, and \<^verbatim>\<open>updated_at\<close>, which
  the trigger \<^verbatim>\<open>update_orders_updated_at\<close> of the schema stamps on every update. Product,
  customer, agent, quantity, unit price, total price, commission, commission rate,
  delivery address and customer notes are as before, and so are the key and the creation
  time. No other row, no user, no product and no console line changes.
\<close>

theorem updateStatus_frame:
  assumes "updateOrderStatus e usr i body s = (Inr r, s')"
  shows "\<exists>ord t. select_order s i = Some ord \<and> body_status body = Some t
     \<and> status r = t
     \<and> agent_notes r = (if truthy (body_agent_notes body) then body_agent_notes body
                        else agent_notes ord)
     \<and> product_id r = product_id ord
     \<and> customer_id r = customer_id ord
     \<and> agent_id r = agent_id ord
     \<and> quantity r = quantity ord
     \<and> unit_price r = unit_price ord
     \<and> total_price r = total_price ord
     \<and> commission r = commission ord
     \<and> commission_rate r = commission_rate ord
     \<and> delivery_address r = delivery_address ord
     \<and> customer_notes r = customer_notes ord
     \<and> order_id r = order_id ord
     \<and> created_at r = created_at ord
     \<and> updated_at r = now e
     \<and> orders s' = map (\<lambda>x. if order_id x = i then r else x) (orders s)
     \<and> users s' = users s \<and> products s' = products s \<and> console s' = console s"
proof -
  from updateOrderStatus_success[OF assms] obtain ord t where
    ex: "select_order s i = Some ord"
    and chk: "check_transition (status ord) (body_status body) = Inr t"
    and r: "r = (updateData t (body_agent_notes body) ord)\<lparr>updated_at := now e\<rparr>"
    and s': "s' = update_order e i (updateData t (body_agent_notes body)) s"
    by blast
  from chk have t: "body_status body = Some t" by (simp add: check_transition_adjacency)
  have rows: "orders s' = map (\<lambda>x. if order_id x = i then r else x) (orders s)"
    unfolding s' r by (rule update_order_rows[OF ex])
  have fr: "users s' = users s \<and> products s' = products s \<and> console s' = console s"
    unfolding s' by (rule update_order_frame)
  from ex t rows fr show ?thesis
    unfolding r by (intro exI[of _ ord] exI[of _ t]) (simp add: updateData_def)
qed


theorem updateStatus_frame_witness:
  "updateOrderStatus env1 agentA 100 to_cancelled_with_notes store2
     = (Inr (order1\<lparr>status := ''cancelled'', agent_notes := Some ''customer unreachable'',
                    updated_at := 2000\<rparr>),
        store2\<lparr>orders := [order1\<lparr>status := ''cancelled'',
                    agent_notes := Some ''customer unreachable'', updated_at := 2000\<rparr>]\<rparr>)
   \<and> select_order store2 100 = Some order1
   \<and> total_price (order1\<lparr>status := ''cancelled'', agent_notes := Some ''customer unreachable'',
                    updated_at := 2000\<rparr>) = total_price order1
   \<and> products (store2\<lparr>orders := [order1\<lparr>status := ''cancelled'',
                    agent_notes := Some ''customer unreachable'', updated_at := 2000\<rparr>]\<rparr>)
       = products store2"
proof -
  have run: "updateOrderStatus env1 agentA 100 to_cancelled_with_notes store2
     = (Inr (order1\<lparr>status := ''cancelled'', agent_notes := Some ''customer unreachable'',
                    updated_at := 2000\<rparr>),
        store2\<lparr>orders := [order1\<lparr>status := ''cancelled'',
                    agent_notes := Some ''customer unreachable'', updated_at := 2000\<rparr>]\<rparr>)"
    by (simp add: updateOrderStatus_defs scenario_defs)
  have ex: "select_order store2 100 = Some order1"
    by (simp add: select_order_def scenario_defs)
  from updateStatus_frame[OF run] run ex show ?thesis by auto
qed

text \<open>
  C9 as stated fails: status and agent notes are not the only fields that change. Agent
  A confirms the order at time 2000, and the row's \<^verbatim>\<open>updated_at\<close> goes from 1000 to
  2000.
\<close>

theorem updateStatus_frame_counterexample:
  "select_order store2 100 = Some order1
   \<and> updated_at order1 = 1000
   \<and> fst (updateOrderStatus env1 agentA 100 to_confirmed store2)
       = Inr (order1\<lparr>status := ''confirmed'', updated_at := 2000\<rparr>)
   \<and> updated_at (order1\<lparr>status := ''confirmed'', updated_at := 2000\<rparr>) \<noteq> updated_at order1"
  by (simp add: updateOrderStatus_defs scenario_defs)

subsection \<open>getOrder\<close>

lemma hasAccess_meaning:
  assumes "products s (product_id ord) = Some P"
  shows "hasAccess usr ord s
     = Inr (user_role usr = ''admin'' \<or> customer_id ord = user_id usr
            \<or> agent_id ord = Some (user_id usr) \<or> farmer_id P = user_id usr)"
  using assms by (simp add: hasAccess_def)

text \<open>
  C8. For every stored order and every caller, getOrder returns the order exactly when
  the caller is an administrator, or the order's customer, or its agent, or the farmer of
  its product; every other caller is answered AccessDenied and gets no order. The store
  is left as it was.
\<close>

theorem getOrder_access:
  assumes ex: "select_order s i = Some ord"
      and pr: "products s (product_id ord) = Some P"
  shows "(getOrder usr i s = (Inr ord, s)
          \<longleftrightarrow> (user_role usr = ''admin'' \<or> customer_id ord = user_id usr
               \<or> agent_id ord = Some (user_id usr) \<or> farmer_id P = user_id usr))
     \<and> (\<not> (user_role usr = ''admin'' \<or> customer_id ord = user_id usr
               \<or> agent_id ord = Some (user_id usr) \<or> farmer_id P = user_id usr)
          \<longrightarrow> getOrder usr i s = (Inl AccessDenied, s))
     \<and> (\<forall>r s'. getOrder usr i s = (Inr r, s') \<longrightarrow> r = ord \<and> s' = s)"
  by (simp add: getOrder_def ex hasAccess_meaning[OF pr])

theorem getOrder_access_witness:
  "select_order store2 100 = Some order1
   \<and> products store2 (product_id order1) = Some (productP\<lparr>available_quantity := 7\<rparr>)
   \<and> getOrder customerC 100 store2 = (Inr order1, store2)
   \<and> getOrder agentA 100 store2 = (Inr order1, store2)
   \<and> getOrder farmerF 100 store2 = (Inr order1, store2)
   \<and> getOrder adminU 100 store2 = (Inr order1, store2)
   \<and> getOrder agentB 100 store2 = (Inl AccessDenied, store2)"
proof -
  have ex: "select_order store2 100 = Some order1"
    by (simp add: select_order_def scenario_defs)
  have pr: "products store2 (product_id order1) = Some (productP\<lparr>available_quantity := 7\<rparr>)"
    by (simp add: scenario_defs)
  note a = getOrder_access[OF ex pr]
  have c: "getOrder customerC 100 store2 = (Inr order1, store2)"
    using a[where usr = customerC] by (simp add: scenario_defs)
  have g: "getOrder agentA 100 store2 = (Inr order1, store2)"
    using a[where usr = agentA] by (simp add: scenario_defs)
  have f: "getOrder farmerF 100 store2 = (Inr order1, store2)"
    using a[where usr = farmerF] by (simp add: scenario_defs)
  have d: "getOrder adminU 100 store2 = (Inr order1, store2)"
    using a[where usr = adminU] by (simp add: scenario_defs)
  have b: "getOrder agentB 100 store2 = (Inl AccessDenied, store2)"
    using a[where usr = agentB] by (simp add: scenario_defs)
  from ex pr c g f d b show ?thesis by blast
qed

subsection \<open>assignAgent\<close>

lemma assignAgent_run:
  assumes ex: "select_order s i = Some ord"
      and pr: "products s (product_id ord) = Some P"
      and auth: "user_role usr = ''admin''
                 \<or> (user_role usr = ''customer'' \<and> customer_id ord = user_id usr)"
  shows "assignAgent e usr i a s =
     (case select_active_agent s a of
        None \<Rightarrow> (Inl AgentNotFound, s)
      | Some ag \<Rightarrow>
          if user_district_id ag \<noteq> Some (product_district_id P)
          then (Inl DistrictMismatch, s)
          else if order_update_fails e \<or> \<not> fits_10_2 (total_price ord * 5 / 100)
          then (Inl AssignFailed, s)
          else (Inr (ord\<lparr>agent_id := a, commission := round2 (total_price ord * 5 / 100),
                         commission_rate := 5, updated_at := now e\<rparr>),
                update_order e i (\<lambda>r. r\<lparr>agent_id := a,
                                        commission := round2 (total_price ord * 5 / 100),
                                        commission_rate := 5\<rparr>) s))"
proof -
  have sel: "select_order (update_order e i (\<lambda>r. r\<lparr>agent_id := a,
                                        commission := round2 (total_price ord * 5 / 100),
                                        commission_rate := 5\<rparr>) s) i
      = Some (ord\<lparr>agent_id := a, commission := round2 (total_price ord * 5 / 100),
                         commission_rate := 5, updated_at := now e\<rparr>)"
    using select_order_update[OF ex, of "\<lambda>r. r\<lparr>agent_id := a,
                                        commission := round2 (total_price ord * 5 / 100),
                                        commission_rate := 5\<rparr>" e]
    by simp
  from auth show ?thesis
    by (auto simp: assignAgent_def ex pr sel[simplified] Let_def split: option.splits)
qed

text \<open>
  C4, as amended. For every stored order and every caller allowed to assign (an
  administrator, or the customer of the order), with the store accepting the write (no
  fault, and a commission that fits its column), assignAgent succeeds exactly when the
  agent id names a user with role agent who is active and whose district is the district
  of the order's product. Every success has written what it answers: the stored row gets
  that agent id, commission rate 5 and, as commission, 5 percent of the total price as the
  DECIMAL(10,2) column rounds it (exactly 5 percent when that has at most two decimals),
  whatever the order's status and whoever was assigned before. A missing, non-agent or
  inactive agent gives NotFound, an agent of another district DistrictMismatch, both
  without a write.
\<close>

theorem assignAgent_spec:
  assumes ex: "select_order s i = Some ord"
      and pr: "products s (product_id ord) = Some P"
      and auth: "user_role usr = ''admin''
                 \<or> (user_role usr = ''customer'' \<and> customer_id ord = user_id usr)"
  shows "(\<not> order_update_fails e \<and> fits_10_2 (total_price ord * 5 / 100)
          \<longrightarrow> ((\<exists>r s'. assignAgent e usr i a s = (Inr r, s'))
               \<longleftrightarrow> (\<exists>aid ag. a = Some aid \<and> users s aid = Some ag \<and> user_role ag = ''agent''
                     \<and> user_is_active ag
                     \<and> user_district_id ag = Some (product_district_id P))))
     \<and> (\<forall>r s'. assignAgent e usr i a s = (Inr r, s')
          \<longrightarrow> (\<exists>aid ag. a = Some aid \<and> users s aid = Some ag \<and> user_role ag = ''agent''
                  \<and> user_is_active ag
                  \<and> user_district_id ag = Some (product_district_id P))
             \<and> r = ord\<lparr>agent_id := a, commission := round2 (total_price ord * 5 / 100),
                        commission_rate := 5, updated_at := now e\<rparr>
             \<and> s' = update_order e i (\<lambda>x. x\<lparr>agent_id := a,
                                          commission := round2 (total_price ord * 5 / 100),
                                          commission_rate := 5\<rparr>) s
             \<and> select_order s' i = Some r
             \<and> agent_id r = a \<and> commission_rate r = 5
             \<and> total_price r = total_price ord
             \<and> (round2 (total_price ord * 5 / 100) = total_price ord * 5 / 100
                  \<longrightarrow> commission r = total_price r * 5 / 100))
     \<and> (select_active_agent s a = None
          \<longrightarrow> assignAgent e usr i a s = (Inl AgentNotFound, s))
     \<and> (\<forall>ag. select_active_agent s a = Some ag
              \<and> user_district_id ag \<noteq> Some (product_district_id P)
          \<longrightarrow> assignAgent e usr i a s = (Inl DistrictMismatch, s))"
proof -
  let ?c = "round2 (total_price ord * 5 / 100)"
  let ?row = "ord\<lparr>agent_id := a, commission := ?c, commission_rate := 5, updated_at := now e\<rparr>"
  let ?st = "update_order e i (\<lambda>x. x\<lparr>agent_id := a, commission := ?c,
                                     commission_rate := 5\<rparr>) s"
  let ?ok = "\<exists>aid ag. a = Some aid \<and> users s aid = Some ag \<and> user_role ag = ''agent''
                  \<and> user_is_active ag
                  \<and> user_district_id ag = Some (product_district_id P)"
  note run = assignAgent_run[OF ex pr auth, of e a]
  have sel: "select_order ?st i = Some ?row"
    using select_order_update[OF ex, of "\<lambda>x. x\<lparr>agent_id := a, commission := ?c,
                                     commission_rate := 5\<rparr>" e]
    by simp
  show ?thesis
  proof (cases "select_active_agent s a")
    case None
    then have r: "assignAgent e usr i a s = (Inl AgentNotFound, s)"
      by (simp add: run)
    from None have "\<not> ?ok"
      by (auto simp: select_active_agent_None)
    with r None show ?thesis by simp
  next
    case (Some ag)
    then have r: "assignAgent e usr i a s =
          (if user_district_id ag \<noteq> Some (product_district_id P)
           then (Inl DistrictMismatch, s)
           else if order_update_fails e \<or> \<not> fits_10_2 (total_price ord * 5 / 100)
           then (Inl AssignFailed, s)
           else (Inr ?row, ?st))"
      by (simp add: run)
    from Some obtain aid where ag: "a = Some aid" "users s aid = Some ag"
        "user_role ag = ''agent''" "user_is_active ag"
      by (auto simp: select_active_agent_Some)
    from ag Some sel show ?thesis
      unfolding r by auto
  qed
qed

lemmas assignAgent_defs = assignAgent_def select_order_def select_active_agent_def
  update_order_def round2_eval Let_def

theorem assignAgent_spec_witness:
  "select_order store_delivered 100 = Some order_delivered
   \<and> status order_delivered = ''delivered''
   \<and> agent_id order_delivered = Some 2
   \<and> products store_delivered (product_id order_delivered)
       = Some (productP\<lparr>available_quantity := 7\<rparr>)
   \<and> assignAgent env1 customerC 100 (Some 6) store_delivered
       = (Inr (order_delivered\<lparr>agent_id := Some 6, commission := 15 / 2,
                               commission_rate := 5, updated_at := 2000\<rparr>),
          store_delivered\<lparr>orders := [order_delivered\<lparr>agent_id := Some 6,
                               commission := 15 / 2, commission_rate := 5,
                               updated_at := 2000\<rparr>]\<rparr>)
   \<and> commission (order_delivered\<lparr>agent_id := Some 6, commission := 15 / 2,
                               commission_rate := 5, updated_at := 2000\<rparr>)
       = total_price order_delivered * 5 / 100
   \<and> assignAgent env1 customerC 100 (Some 3) store_delivered
       = (Inl DistrictMismatch, store_delivered)
   \<and> assignAgent env1 adminU 100 (Some 1) store_delivered
       = (Inl AgentNotFound, store_delivered)"
proof -
  have ex: "select_order store_delivered 100 = Some order_delivered"
    by (simp add: select_order_def scenario_defs)
  have pr: "products store_delivered (product_id order_delivered)
       = Some (productP\<lparr>available_quantity := 7\<rparr>)"
    by (simp add: scenario_defs)
  have authC: "user_role customerC = ''admin''
     \<or> (user_role customerC = ''customer'' \<and> customer_id order_delivered = user_id customerC)"
    by (simp add: scenario_defs)
  have authA: "user_role adminU = ''admin''
     \<or> (user_role adminU = ''customer'' \<and> customer_id order_delivered = user_id adminU)"
    by (simp add: scenario_defs)
  have run: "assignAgent env1 customerC 100 (Some 6) store_delivered
       = (Inr (order_delivered\<lparr>agent_id := Some 6, commission := 15 / 2,
                               commission_rate := 5, updated_at := 2000\<rparr>),
          store_delivered\<lparr>orders := [order_delivered\<lparr>agent_id := Some 6,
                               commission := 15 / 2, commission_rate := 5,
                               updated_at := 2000\<rparr>]\<rparr>)"
    by (simp add: assignAgent_defs scenario_defs)
  have ex6: "round2 (total_price order_delivered * 5 / 100)
       = total_price order_delivered * 5 / 100"
    by (simp add: round2_eval scenario_defs)
  from assignAgent_spec[OF ex pr authC, where e = env1 and a = "Some 6"] run ex6
  have ok: "commission (order_delivered\<lparr>agent_id := Some 6, commission := 15 / 2,
                               commission_rate := 5, updated_at := 2000\<rparr>)
       = total_price order_delivered * 5 / 100"
    by simp
  have mis: "assignAgent env1 customerC 100 (Some 3) store_delivered
       = (Inl DistrictMismatch, store_delivered)"
    using assignAgent_spec[OF ex pr authC, where e = env1 and a = "Some 3"]
    by (simp add: select_active_agent_def scenario_defs)
  have nf: "assignAgent env1 adminU 100 (Some 1) store_delivered
       = (Inl AgentNotFound, store_delivered)"
    using assignAgent_spec[OF ex pr authA, where e = env1 and a = "Some 1"]
    by (simp add: select_active_agent_def scenario_defs)
  from ex pr run ok mis nf show ?thesis by (simp add: scenario_defs)
qed

text \<open>
  C4 as stated fails where 5 percent of the total has more than two decimals: for the
  order of total 33.33 the handler computes 1.6665 and the stored, answered commission is
  1.67.
\<close>

theorem assignAgent_spec_counterexample:
  "select_order store33 100 = Some order33
   \<and> total_price order33 = 3333 / 100
   \<and> fst (assignAgent env1 customerC 100 (Some 2) store33)
       = Inr (order33\<lparr>agent_id := Some 2, commission := 167 / 100, commission_rate := 5,
                      updated_at := 2000\<rparr>)
   \<and> total_price (order33\<lparr>agent_id := Some 2, commission := 167 / 100, commission_rate := 5,
                      updated_at := 2000\<rparr>) * 5 / 100 = 3333 / 2000
   \<and> commission (order33\<lparr>agent_id := Some 2, commission := 167 / 100, commission_rate := 5,
                      updated_at := 2000\<rparr>)
       \<noteq> total_price (order33\<lparr>agent_id := Some 2, commission := 167 / 100,
                      commission_rate := 5, updated_at := 2000\<rparr>) * 5 / 100"
  by (simp add: assignAgent_defs scenario_defs)

subsection \<open>getMyOrders\<close>


text \<open>
  The farmer's list is not drawn from the farmer's products only: it is the whole table,
  whoever the products belong to.
\<close>

lemma role_filter_farmer:
  "user_role usr = ''farmer'' \<Longrightarrow> role_filter usr s = Inr (orders s)"
  by (simp add: role_filter_def)
















end
